theory Spec2Isabelle
  imports Main "HOL-Library.Word" "HOL-Library.Sublist"
begin

section \<open>DiscordTranslator: the message relay of \<^verbatim>\<open>main.py\<close>\<close>

text \<open>
  The program is one module: configuration read from the process environment when the
  module is loaded, and one event handler, \<^verbatim>\<open>TranslationClient.on_message\<close>, which
  calls five outside services (language detection, translation, attachment download,
  message deletion, webhook delivery). The handler is embedded as a function of the
  configuration, of the answers the outside services give during this invocation
  (a record of oracles, \<open>world\<close>) and of the inbound message; it returns how the
  handler ended and the ordered list of outside calls and console lines it made.
\<close>

subsection \<open>Exceptions\<close>

text \<open>
  The handler's \<^verbatim>\<open>except\<close> clauses distinguish \<^verbatim>\<open>deepl.DeepLException\<close>,
  \<^verbatim>\<open>discord.errors.Forbidden\<close>, \<^verbatim>\<open>discord.errors.NotFound\<close> and
  \<^verbatim>\<open>Exception\<close>. An exception is its class, as far as these clauses tell
  classes apart, and the text \<^verbatim>\<open>str(e)\<close> that the handler prints. All four classes
  are subclasses of \<^verbatim>\<open>Exception\<close>.
\<close>

datatype exn_class = DeepLException | Forbidden | NotFound | OtherException

datatype exn = Exn (class_of: exn_class) (str: string)

subsection \<open>Data model\<close>

type_synonym bytes = "8 word list"

record attachment =
  url :: string
  filename :: string

record author =
  bot :: bool
  display_name :: string
  avatar :: "string option"  \<comment> \<open>\<^verbatim>\<open>avatar.url\<close> when the author has an avatar\<close>
  default_avatar :: string  \<comment> \<open>\<^verbatim>\<open>default_avatar.url\<close>\<close>

record message =
  channel_id :: int
  author :: author
  content :: string
  attachments :: "attachment list"

text \<open>\<^verbatim>\<open>discord.File(io.BytesIO(file_content), filename=...)\<close>\<close>

datatype discord_file = File (fp: bytes) (file_filename: string)

text \<open>The keyword arguments of \<^verbatim>\<open>webhook.send\<close>: the repost envelope.\<close>

record envelope =
  send_content :: string
  send_username :: string
  send_avatar_url :: string
  send_files :: "discord_file list"

text \<open>The response of \<^verbatim>\<open>session.get\<close>: its status and what \<^verbatim>\<open>resp.read()\<close> gives.\<close>

datatype response = Response (status: int) (read: "exn + bytes")

text \<open>
  The outside services during one invocation of the handler. \<open>Inl\<close> (or \<open>Some\<close> for
  the calls without a result) is the exception the call raises. \<open>session_get\<close> takes
  the position of the attachment in the message besides its URL, since two downloads
  of one URL need not end alike.
\<close>

record world =
  detect :: "string \<Rightarrow> exn + string"
  translate_text :: "string \<Rightarrow> string \<Rightarrow> exn + string"
  session_get :: "nat \<Rightarrow> string \<Rightarrow> exn + response"
  delete :: "exn option"
  from_url :: "string \<Rightarrow> exn option"
  send :: "envelope \<Rightarrow> exn option"

text \<open>What the handler does that is visible outside it, in order.\<close>

datatype event =
    Detect string
  | Translate string string
  | Get string
  | Delete
  | FromUrl string
  | Send envelope
  | Print string

datatype outcome = Returned | Raised exn

record config =
  TOKEN :: string
  WEBHOOK_URL :: string
  DEEPL_API_KEY :: string
  TARGET_CHANNEL_ID :: int

subsection \<open>Python's \<^verbatim>\<open>str\<close> on integers\<close>

definition digit_char :: "nat \<Rightarrow> char" where
  "digit_char d = ''0123456789'' ! d"

fun str_nat :: "nat \<Rightarrow> string" where
  "str_nat n = (if n < 10 then [digit_char n] else str_nat (n div 10) @ [digit_char (n mod 10)])"

declare str_nat.simps [simp del]

definition str_int :: "int \<Rightarrow> string" where
  "str_int i = (if i < 0 then CHR ''-'' # str_nat (nat (- i)) else str_nat (nat i))"

subsection \<open>The attachment loop (lines 78--96)\<close>

text \<open>
  One pass of the loop body for the attachment at position \<open>i\<close>: the file appended to
  \<^verbatim>\<open>attachment_files\<close>, if any, and the events of the pass. Every exception of the
  body is caught by \<^verbatim>\<open>except Exception\<close>.
\<close>

definition download :: "world \<Rightarrow> nat \<Rightarrow> attachment \<Rightarrow> discord_file option \<times> event list" where
  "download w i attachment =
     (case session_get w i (url attachment) of
        Inl e \<Rightarrow>
          (None, [Get (url attachment), Print (''Error downloading attachment: '' @ str e)])
      | Inr resp \<Rightarrow>
          if status resp = 200 then
            (case read resp of
               Inr file_content \<Rightarrow>
                 (Some (File file_content (filename attachment)), [Get (url attachment)])
             | Inl e \<Rightarrow>
                 (None, [Get (url attachment),
                         Print (''Error downloading attachment: '' @ str e)]))
          else
            (None, [Get (url attachment),
                    Print (''Failed to download attachment: '' @ url attachment
                           @ '' (Status: '' @ str_int (status resp) @ '')'')]))"

text \<open>
  The loop, with \<^verbatim>\<open>attachment_files\<close> and the events so far as accumulators;
  \<open>i\<close> is the position of the head of the remaining attachments.
\<close>

fun download_all ::
  "world \<Rightarrow> nat \<Rightarrow> attachment list \<Rightarrow> discord_file list \<Rightarrow> event list \<Rightarrow> discord_file list \<times> event list" where
  "download_all w i [] attachment_files evs = (attachment_files, evs)"
| "download_all w i (attachment # rest) attachment_files evs =
     (case download w i attachment of
        (Some f, evs') \<Rightarrow> download_all w (Suc i) rest (attachment_files @ [f]) (evs @ evs')
      | (None, evs') \<Rightarrow> download_all w (Suc i) rest attachment_files (evs @ evs'))"

subsection \<open>The handler \<^verbatim>\<open>on_message\<close> (lines 50--132)\<close>

text \<open>
  Each \<^verbatim>\<open>try\<close> of the source is a case distinction on the answer of the call it
  guards, and each \<^verbatim>\<open>except\<close> clause catches the classes it names: an exception of
  the translation call outside \<^verbatim>\<open>DeepLException\<close>, or of the deletion outside
  \<^verbatim>\<open>Forbidden\<close> and \<^verbatim>\<open>NotFound\<close>, leaves the handler (\<open>Raised\<close>). Opening an
  \<^verbatim>\<open>aiohttp.ClientSession\<close> makes no outside call and is taken not to raise; the
  keyword arguments of \<^verbatim>\<open>webhook.send\<close> only read the message. Signals that are not
  instances of \<^verbatim>\<open>Exception\<close>, such as the cancellation of the task, are not
  modelled; \<^verbatim>\<open>on_ready\<close>, which only prints, is left out.
\<close>

definition final_content :: "string \<Rightarrow> message \<Rightarrow> string" where
  "final_content translated_text message =
     translated_text @ [CHR 0x0A] @ ''-# [Original] '' @ content message"

definition repost :: "string \<Rightarrow> message \<Rightarrow> discord_file list \<Rightarrow> envelope" where
  "repost translated_text message attachment_files =
     \<lparr> send_content = final_content translated_text message,
       send_username = display_name (author message),
       send_avatar_url =
         (case avatar (author message) of
            Some avatar_url \<Rightarrow> avatar_url
          | None \<Rightarrow> default_avatar (author message)),
       send_files = attachment_files \<rparr>"

definition on_message :: "config \<Rightarrow> world \<Rightarrow> message \<Rightarrow> outcome \<times> event list" where
  "on_message cfg w message =
     (if channel_id message \<noteq> TARGET_CHANNEL_ID cfg then (Returned, [])
      else if bot (author message) then (Returned, [])
      else
        case detect w (content message) of
          Inl e \<Rightarrow>
            (Returned, [Detect (content message),
                        Print (''Error detecting language: '' @ str e)])
        | Inr source_lang \<Rightarrow>
            if source_lang \<noteq> ''en'' then
              (case translate_text w (content message) ''EN-US'' of
                 Inl e \<Rightarrow>
                   if class_of e = DeepLException then
                     (Returned, [Detect (content message),
                                 Translate (content message) ''EN-US'',
                                 Print (''Error translating message: '' @ str e)])
                   else
                     (Raised e, [Detect (content message),
                                 Translate (content message) ''EN-US''])
               | Inr translated_text \<Rightarrow>
                   (case download_all w 0 (attachments message) []
                           [Detect (content message), Translate (content message) ''EN-US'']
                    of (attachment_files, evs) \<Rightarrow>
                      (case delete w of
                         Some e \<Rightarrow>
                           if class_of e = Forbidden then
                             (Returned, evs @ [Delete,
                                Print ''Bot lacks permission to delete the message.''])
                           else if class_of e = NotFound then
                             (Returned, evs @ [Delete,
                                Print ''Message not found (already deleted?)''])
                           else (Raised e, evs @ [Delete])
                       | None \<Rightarrow>
                           (case from_url w (WEBHOOK_URL cfg) of
                              Some e \<Rightarrow>
                                (Returned, evs @ [Delete, FromUrl (WEBHOOK_URL cfg),
                                   Print (''Error creating webhook: '' @ str e)])
                            | None \<Rightarrow>
                                (case send w (repost translated_text message attachment_files) of
                                   Some e \<Rightarrow>
                                     (Returned, evs @ [Delete, FromUrl (WEBHOOK_URL cfg),
                                        Send (repost translated_text message attachment_files),
                                        Print (''Error sending webhook message: '' @ str e)])
                                 | None \<Rightarrow>
                                     (Returned, evs @ [Delete, FromUrl (WEBHOOK_URL cfg),
                                        Send (repost translated_text message
                                                attachment_files)]))))))
            else (Returned, [Detect (content message)]))"


subsection \<open>Module-level configuration (lines 8--31)\<close>

text \<open>
  \<^verbatim>\<open>os.environ\<close> is a map from names to values. Python's built-in \<^verbatim>\<open>int\<close> on a
  string, which is not part of the program, is the parameter \<open>int_str\<close>: \<open>None\<close> is
  \<^verbatim>\<open>ValueError\<close>. The module ends either in \<^verbatim>\<open>exit()\<close> or with the four globals
  set; both carry the lines printed on the way.
\<close>

type_synonym environ = "string \<rightharpoonup> string"

definition invalid_integer_warning :: string where
  "invalid_integer_warning =
     ''Warning: TARGET_CHANNEL_ID environment variable is not a valid integer.''
     @ ''  Using a default value of 0.''"

definition missing_variables_error :: string where
  "missing_variables_error =
     ''Error: Missing one or more required environment variables:''
     @ '' DISCORD_TOKEN, WEBHOOK_URL, DEEPL_API_KEY, TARGET_CHANNEL_ID''"

text \<open>Lines 16--23: \<^verbatim>\<open>int(os.environ.get("TARGET_CHANNEL_ID", 0))\<close> under \<^verbatim>\<open>try\<close>.\<close>

definition read_target_channel_id ::
  "(string \<Rightarrow> int option) \<Rightarrow> environ \<Rightarrow> int \<times> string list" where
  "read_target_channel_id int_str environ =
     (case environ ''TARGET_CHANNEL_ID'' of
        None \<Rightarrow> (0, [])
      | Some s \<Rightarrow>
          (case int_str s of
             Some n \<Rightarrow> (n, [])
           | None \<Rightarrow> (0, [invalid_integer_warning])))"

text \<open>Truth value of an \<^verbatim>\<open>Optional[str]\<close>: \<^verbatim>\<open>None\<close> and \<^verbatim>\<open>""\<close> are false.\<close>

definition truthy :: "string option \<Rightarrow> bool" where
  "truthy v = (case v of None \<Rightarrow> False | Some s \<Rightarrow> s \<noteq> [])"

datatype startup = Exited "string list" | Started config "string list"

definition load_config :: "(string \<Rightarrow> int option) \<Rightarrow> environ \<Rightarrow> startup" where
  "load_config int_str environ =
     (case read_target_channel_id int_str environ of
        (target_channel_id, out) \<Rightarrow>
          if \<not> (truthy (environ ''DISCORD_TOKEN'') \<and> truthy (environ ''WEBHOOK_URL'')
                \<and> truthy (environ ''DEEPL_API_KEY'') \<and> target_channel_id \<noteq> 0)
          then Exited (out @ [missing_variables_error])
          else
            (case (environ ''DISCORD_TOKEN'', environ ''WEBHOOK_URL'',
                   environ ''DEEPL_API_KEY'') of
               (Some token, Some webhook_url, Some deepl_api_key) \<Rightarrow>
                 Started \<lparr> TOKEN = token, WEBHOOK_URL = webhook_url,
                           DEEPL_API_KEY = deepl_api_key,
                           TARGET_CHANNEL_ID = target_channel_id \<rparr> out
             | _ \<Rightarrow> Exited (out @ [missing_variables_error])))"

text \<open>
  The whole module: the configuration, then \<^verbatim>\<open>client.run\<close>, which calls the handler
  once for each inbound message; each message comes with the answers of the outside
  services during its handling. \<open>None\<close>: the client was never started. The results are
  kept per message, since the handlers of different messages may overlap in time.
\<close>

definition main_module ::
  "(string \<Rightarrow> int option) \<Rightarrow> environ \<Rightarrow> (world \<times> message) list
     \<Rightarrow> string list \<times> (outcome \<times> event list) list option" where
  "main_module int_str environ inbox =
     (case load_config int_str environ of
        Exited out \<Rightarrow> (out, None)
      | Started cfg out \<Rightarrow> (out, Some (map (\<lambda>(w, message). on_message cfg w message) inbox)))"

subsection \<open>Decimal integer literals, for running the configuration on examples\<close>

text \<open>
  The decimal, ASCII part of what \<^verbatim>\<open>int\<close> accepts: surrounding white space, a sign,
  digits with single underscores between them.
\<close>

definition is_space :: "char \<Rightarrow> bool" where
  "is_space c = (let n = (of_char c :: nat) in (9 \<le> n \<and> n \<le> 13) \<or> n = 32)"

definition is_digit :: "char \<Rightarrow> bool" where
  "is_digit c = (let n = (of_char c :: nat) in 48 \<le> n \<and> n \<le> 57)"

fun digits :: "nat \<Rightarrow> bool \<Rightarrow> string \<Rightarrow> nat option" where
  "digits acc prev [] = (if prev then Some acc else None)"
| "digits acc prev (c # cs) =
     (if is_digit c then digits (10 * acc + (of_char c - 48)) True cs
      else if c = CHR ''_'' \<and> prev then digits acc False cs
      else None)"

definition py_int :: "string \<Rightarrow> int option" where
  "py_int s =
     (case rev (dropWhile is_space (rev (dropWhile is_space s))) of
        [] \<Rightarrow> None
      | c # cs \<Rightarrow>
          if c = CHR ''-'' then map_option (\<lambda>n. - int n) (digits 0 False cs)
          else if c = CHR ''+'' then map_option int (digits 0 False cs)
          else map_option int (digits 0 False (c # cs)))"

subsection \<open>Reading traces\<close>

fun is_send :: "event \<Rightarrow> bool" where
  "is_send (Send _) = True"
| "is_send _ = False"

fun is_from_url :: "event \<Rightarrow> bool" where
  "is_from_url (FromUrl _) = True"
| "is_from_url _ = False"

fun is_print :: "event \<Rightarrow> bool" where
  "is_print (Print _) = True"
| "is_print _ = False"

fun is_get :: "event \<Rightarrow> bool" where
  "is_get (Get _) = True"
| "is_get _ = False"

text \<open>The events after which the chat is no longer as it was: deletion and the webhook.\<close>

definition mutates :: "event \<Rightarrow> bool" where
  "mutates ev = (ev = Delete \<or> is_from_url ev \<or> is_send ev)"

text \<open>
  An attachment is fetched successfully when \<^verbatim>\<open>session.get\<close> answers with status 200
  and the body is read; the result is the body.
\<close>

definition fetched :: "world \<Rightarrow> nat \<Rightarrow> attachment \<Rightarrow> bytes option" where
  "fetched w i a =
     (case session_get w i (url a) of
        Inl _ \<Rightarrow> None
      | Inr resp \<Rightarrow>
          (case read resp of
             Inl _ \<Rightarrow> None
           | Inr body \<Rightarrow> if status resp = 200 then Some body else None))"

text \<open>The payloads of the attachments fetched successfully, in the order of the message.\<close>

definition payloads :: "world \<Rightarrow> attachment list \<Rightarrow> discord_file list" where
  "payloads w as =
     List.map_filter (\<lambda>(i, a). map_option (\<lambda>body. File body (filename a)) (fetched w i a))
       (enumerate 0 as)"

text \<open>The events of the attachment loop run on its own.\<close>

definition download_events :: "world \<Rightarrow> attachment list \<Rightarrow> event list" where
  "download_events w as = snd (download_all w 0 as [] [])"

text \<open>
  The console line for an attachment that was not fetched: the exception text when
  \<^verbatim>\<open>session.get\<close> or \<^verbatim>\<open>resp.read()\<close> raised, the URL and the status when the status
  was not 200.
\<close>

definition failure_line :: "world \<Rightarrow> nat \<Rightarrow> attachment \<Rightarrow> string" where
  "failure_line w i a =
     (case session_get w i (url a) of
        Inl e \<Rightarrow> ''Error downloading attachment: '' @ str e
      | Inr resp \<Rightarrow>
          if status resp \<noteq> 200 then
            ''Failed to download attachment: '' @ url a
            @ '' (Status: '' @ str_int (status resp) @ '')''
          else
            (case read resp of
               Inl e \<Rightarrow> ''Error downloading attachment: '' @ str e
             | Inr _ \<Rightarrow> []))"

subsection \<open>Examples\<close>

definition example_config :: config where
  "example_config =
     \<lparr> TOKEN = ''token'', WEBHOOK_URL = ''https://discord.com/api/webhooks/1/t'',
       DEEPL_API_KEY = ''key'', TARGET_CHANNEL_ID = 42 \<rparr>"

definition alice :: author where
  "alice = \<lparr> bot = False, display_name = ''Alice'', avatar = None,
             default_avatar = ''https://cdn.discordapp.com/embed/avatars/0.png'' \<rparr>"

definition bonjour :: message where
  "bonjour =
     \<lparr> channel_id = 42, author = alice, content = ''Bonjour le monde'',
       attachments = [\<lparr> url = ''https://cdn/a.png'', filename = ''a.png'' \<rparr>,
                      \<lparr> url = ''https://cdn/b.png'', filename = ''b.png'' \<rparr>] \<rparr>"

text \<open>
  Detection answers \<^verbatim>\<open>fr\<close>, translation \<^verbatim>\<open>Hello world\<close>, the first download
  succeeds, every other one is answered with status 404, deletion and webhook succeed.
\<close>

definition french_world :: world where
  "french_world =
     \<lparr> detect = (\<lambda>_. Inr ''fr''),
       translate_text = (\<lambda>_ _. Inr ''Hello world''),
       session_get = (\<lambda>i _. if i = 0 then Inr (Response 200 (Inr [1, 2, 3]))
                             else Inr (Response 404 (Inr []))),
       delete = None,
       from_url = (\<lambda>_. None),
       send = (\<lambda>_. None) \<rparr>"

text \<open>
  A message with an attachment and no text, and a translation service that rejects an
  empty text with an exception that is not a \<^verbatim>\<open>DeepLException\<close>.
\<close>

definition attachment_only :: message where
  "attachment_only = bonjour \<lparr> content := [] \<rparr>"

definition value_error_world :: world where
  "value_error_world =
     french_world \<lparr> translate_text :=
       (\<lambda>text _. if text = [] then Inl (Exn OtherException ''text must not be empty'')
                 else Inr ''Hello world'') \<rparr>"

text \<open>Every download is answered with status 206 and a body.\<close>

definition partial_content_world :: world where
  "partial_content_world =
     french_world \<lparr> session_get := (\<lambda>_ _. Inr (Response 206 (Inr [1, 2, 3]))) \<rparr>"

text \<open>Variations of the example: another channel, an automated author.\<close>

definition elsewhere :: message where
  "elsewhere = bonjour \<lparr> channel_id := 7 \<rparr>"

definition robot :: message where
  "robot = bonjour \<lparr> author := alice \<lparr> bot := True \<rparr> \<rparr>"

text \<open>Variations of the outside services, one per way the handler can end.\<close>

definition english_world :: world where
  "english_world = french_world \<lparr> detect := (\<lambda>_. Inr ''en'') \<rparr>"

definition detection_down_world :: world where
  "detection_down_world =
     french_world \<lparr> detect := (\<lambda>_. Inl (Exn OtherException ''timed out'')) \<rparr>"

definition quota_world :: world where
  "quota_world =
     french_world \<lparr> translate_text := (\<lambda>_ _. Inl (Exn DeepLException ''Quota exceeded'')) \<rparr>"

definition forbidden_world :: world where
  "forbidden_world = french_world \<lparr> delete := Some (Exn Forbidden ''403 Forbidden'') \<rparr>"

definition broken_webhook_world :: world where
  "broken_webhook_world =
     french_world \<lparr> from_url := (\<lambda>_. Some (Exn OtherException ''Invalid webhook URL given.'')) \<rparr>"

text \<open>A complete process environment.\<close>

definition example_environ :: environ where
  "example_environ =
     [''DISCORD_TOKEN'' \<mapsto> ''token'',
      ''WEBHOOK_URL'' \<mapsto> ''https://discord.com/api/webhooks/1/t'',
      ''DEEPL_API_KEY'' \<mapsto> ''key'',
      ''TARGET_CHANNEL_ID'' \<mapsto> ''42'']"

lemmas example_defs =
  bonjour_def alice_def example_config_def french_world_def elsewhere_def robot_def
  english_world_def detection_down_world_def quota_world_def forbidden_world_def
  broken_webhook_world_def

section \<open>The attachment loop\<close>

text \<open>
  The loop with accumulators is the loop started on empty accumulators, appended to
  what was there; its files are \<open>payloads\<close>, its events only downloads and console
  lines.
\<close>

lemma download_all_acc:
  "download_all w i as fs evs =
     (fs @ fst (download_all w i as [] []), evs @ snd (download_all w i as [] []))"
proof (induction as arbitrary: i fs evs)
  case Nil
  show ?case by simp
next
  case (Cons a as)
  obtain r evs' where d: "download w i a = (r, evs')" by (cases "download w i a")
  show ?case
  proof (cases r)
    case None
    with d show ?thesis
      using Cons.IH [of "Suc i" fs "evs @ evs'"] Cons.IH [of "Suc i" "[]" "evs'"]
      by simp
  next
    case (Some f)
    with d show ?thesis
      using Cons.IH [of "Suc i" "fs @ [f]" "evs @ evs'"] Cons.IH [of "Suc i" "[f]" "evs'"]
      by simp
  qed
qed

lemma download_fst: "fst (download w i a) = map_option (\<lambda>body. File body (filename a)) (fetched w i a)"
  by (simp add: download_def fetched_def split: sum.splits)

lemma download_all_files_from:
  "fst (download_all w i as fs evs) =
     fs @ List.map_filter (\<lambda>(i, a). map_option (\<lambda>body. File body (filename a)) (fetched w i a))
       (enumerate i as)"
proof (induction as arbitrary: i fs evs)
  case Nil
  show ?case by (simp add: map_filter_simps)
next
  case (Cons a as)
  obtain r evs' where d: "download w i a = (r, evs')" by (cases "download w i a")
  show ?case
  proof (cases "fetched w i a")
    case None
    then have "r = None" using download_fst [of w i a] d by simp
    with d None show ?thesis
      using Cons.IH [of "Suc i" fs "evs @ evs'"] by (simp add: map_filter_simps)
  next
    case (Some body)
    then have "r = Some (File body (filename a))" using download_fst [of w i a] d by simp
    with d Some show ?thesis
      using Cons.IH [of "Suc i" "fs @ [File body (filename a)]" "evs @ evs'"]
      by (simp add: map_filter_simps)
  qed
qed

lemma download_all_files: "fst (download_all w 0 as [] []) = payloads w as"
  by (simp add: download_all_files_from payloads_def)

lemma download_all_eq:
  "download_all w 0 as [] evs = (payloads w as, evs @ download_events w as)"
  using download_all_acc [of w 0 as "[]" evs] by (simp add: download_all_files download_events_def)

lemma download_snd_no_mutation: "ev \<in> set (snd (download w i a)) \<Longrightarrow> is_get ev \<or> is_print ev"
  by (auto simp: download_def split: sum.splits if_splits)

lemma download_events_from:
  "snd (download_all w i as fs evs) =
     evs @ concat (map (\<lambda>(i, a). snd (download w i a)) (enumerate i as))"
proof (induction as arbitrary: i fs evs)
  case Nil
  show ?case by simp
next
  case (Cons a as)
  obtain r evs' where d: "download w i a = (r, evs')" by (cases "download w i a")
  show ?case
  proof (cases r)
    case None
    with d show ?thesis using Cons.IH [of "Suc i" fs "evs @ evs'"] by simp
  next
    case (Some f)
    with d show ?thesis using Cons.IH [of "Suc i" "fs @ [f]" "evs @ evs'"] by simp
  qed
qed

lemma download_events_eq:
  "download_events w as = concat (map (\<lambda>(i, a). snd (download w i a)) (enumerate 0 as))"
  by (simp add: download_events_def download_events_from)

lemma download_events_kind: "ev \<in> set (download_events w as) \<Longrightarrow> is_get ev \<or> is_print ev"
  by (auto simp: download_events_eq dest: download_snd_no_mutation)

lemma download_events_quiet:
  "ev \<in> set (download_events w as) \<Longrightarrow> \<not> is_send ev \<and> \<not> is_from_url ev \<and> ev \<noteq> Delete"
  using download_events_kind [of ev w as] by (cases ev) auto

lemma filter_is_send_download_events [simp]: "filter is_send (download_events w as) = []"
  by (auto simp: filter_empty_conv dest: download_events_quiet)

lemma Delete_notin_download_events [simp]: "Delete \<notin> set (download_events w as)"
  using download_events_kind [of Delete w as] by auto

lemma FromUrl_notin_download_events [simp]: "FromUrl u \<notin> set (download_events w as)"
  using download_events_kind [of "FromUrl u" w as] by auto

lemma Send_notin_download_events [simp]: "Send E \<notin> set (download_events w as)"
  using download_events_kind [of "Send E" w as] by auto

lemma takeWhile_download_events [simp]:
  "takeWhile (\<lambda>ev. \<not> is_send ev) (download_events w as @ rest) =
     download_events w as @ takeWhile (\<lambda>ev. \<not> is_send ev) rest"
  by (rule takeWhile_append2) (auto dest: download_events_quiet)

lemma subseq_payload_names:
  "subseq (map file_filename
             (List.map_filter (\<lambda>(i, a). map_option (\<lambda>body. File body (filename a)) (fetched w i a))
                (enumerate i as)))
          (map filename as)"
proof (induction as arbitrary: i)
  case Nil
  show ?case by (simp add: map_filter_simps)
next
  case (Cons a as)
  show ?case using Cons.IH [of "Suc i"]
    by (cases "fetched w i a") auto
qed

lemma subseq_payloads: "subseq (map file_filename (payloads w as)) (map filename as)"
  using subseq_payload_names [of w 0 as] by (simp add: payloads_def)

lemma fetched_Some_iff:
  "fetched w i a = Some body \<longleftrightarrow>
     (\<exists>resp. session_get w i (url a) = Inr resp \<and> status resp = 200 \<and> read resp = Inr body)"
  by (auto simp: fetched_def split: sum.splits if_splits)

lemma download_snd_eq:
  "snd (download w i a) =
     Get (url a) # (case fetched w i a of Some _ \<Rightarrow> [] | None \<Rightarrow> [Print (failure_line w i a)])"
  by (simp add: download_def fetched_def failure_line_def split: sum.splits)

lemma download_events_lines:
  "download_events w as =
     concat (map (\<lambda>(i, a). Get (url a) #
                    (case fetched w i a of Some _ \<Rightarrow> [] | None \<Rightarrow> [Print (failure_line w i a)]))
               (enumerate 0 as))"
  by (simp add: download_events_eq download_snd_eq)

lemma pipeline_reaches_delete:
  assumes "channel_id message = TARGET_CHANNEL_ID cfg" and "\<not> bot (author message)"
    and "detect w (content message) = Inr source_lang" and "source_lang \<noteq> ''en''"
    and "translate_text w (content message) ''EN-US'' = Inr translated_text"
  shows "prefix ([Detect (content message), Translate (content message) ''EN-US'']
                 @ download_events w (attachments message) @ [Delete])
                (snd (on_message cfg w message))"
  using assms
  by (simp add: on_message_def download_all_eq split: option.splits)

text \<open>The example message, under any services that answer downloads as \<open>french_world\<close>.\<close>

lemma str_int_404: "str_int 404 = ''404''"
  by code_simp

lemma str_int_206: "str_int 206 = ''206''"
  by code_simp

lemma download_events_bonjour:
  "session_get w = session_get french_world \<Longrightarrow>
   download_events w (attachments bonjour) =
     [Get ''https://cdn/a.png'', Get ''https://cdn/b.png'',
      Print ''Failed to download attachment: https://cdn/b.png (Status: 404)'']"
  by (simp add: download_events_def download_def bonjour_def french_world_def str_int_404)

lemma payloads_bonjour:
  "session_get w = session_get french_world \<Longrightarrow>
   payloads w (attachments bonjour) = [File [1, 2, 3] ''a.png'']"
  by (simp add: payloads_def fetched_def bonjour_def french_world_def)

section \<open>The handler\<close>

text \<open>
  C1. A message in the target channel, from an author who is not a bot, detected as
  another language than English, with translation, deletion, webhook construction and
  webhook send all succeeding: the handler deletes the original exactly once and sends
  exactly one repost. Its content is the translated text, a newline, \<^verbatim>\<open>-# [Original] \<close>
  and the original text; its username is the author's display name; its avatar URL is
  the author's avatar URL if there is one and the default avatar URL otherwise; its files
  are the payloads of the attachments fetched successfully, in the order of the message.
\<close>

theorem translated_repost:
  assumes "channel_id message = TARGET_CHANNEL_ID cfg" and "\<not> bot (author message)"
    and "detect w (content message) = Inr source_lang" and "source_lang \<noteq> ''en''"
    and "translate_text w (content message) ''EN-US'' = Inr translated_text"
    and "delete w = None" and "from_url w (WEBHOOK_URL cfg) = None"
    and "send w (repost translated_text message (payloads w (attachments message))) = None"
  shows "on_message cfg w message =
           (Returned,
            [Detect (content message), Translate (content message) ''EN-US'']
            @ download_events w (attachments message)
            @ [Delete, FromUrl (WEBHOOK_URL cfg),
               Send \<lparr> send_content =
                        translated_text @ [CHR 0x0A] @ ''-# [Original] '' @ content message,
                      send_username = display_name (author message),
                      send_avatar_url =
                        (case avatar (author message) of
                           Some avatar_url \<Rightarrow> avatar_url
                         | None \<Rightarrow> default_avatar (author message)),
                      send_files = payloads w (attachments message) \<rparr>]) \<and>
         count_list (snd (on_message cfg w message)) Delete = 1 \<and>
         length (filter is_send (snd (on_message cfg w message))) = 1"
  using assms
  by (simp add: on_message_def download_all_eq repost_def final_content_def count_list_0_iff)

theorem translated_repost_witness:
  "channel_id bonjour = TARGET_CHANNEL_ID example_config \<and> \<not> bot (author bonjour) \<and>
   detect french_world (content bonjour) = Inr ''fr'' \<and> ''fr'' \<noteq> ''en'' \<and>
   translate_text french_world (content bonjour) ''EN-US'' = Inr ''Hello world'' \<and>
   delete french_world = None \<and> from_url french_world (WEBHOOK_URL example_config) = None \<and>
   send french_world
     (repost ''Hello world'' bonjour (payloads french_world (attachments bonjour))) = None \<and>
   on_message example_config french_world bonjour =
     (Returned,
      [Detect ''Bonjour le monde'', Translate ''Bonjour le monde'' ''EN-US'',
       Get ''https://cdn/a.png'', Get ''https://cdn/b.png'',
       Print ''Failed to download attachment: https://cdn/b.png (Status: 404)'',
       Delete, FromUrl ''https://discord.com/api/webhooks/1/t'',
       Send \<lparr> send_content = ''Hello world'' @ [CHR 0x0A] @ ''-# [Original] Bonjour le monde'',
              send_username = ''Alice'',
              send_avatar_url = ''https://cdn.discordapp.com/embed/avatars/0.png'',
              send_files = [File [1, 2, 3] ''a.png''] \<rparr>]) \<and>
   count_list (snd (on_message example_config french_world bonjour)) Delete = 1 \<and>
   length (filter is_send (snd (on_message example_config french_world bonjour))) = 1"
proof -
  have d: "download_events french_world (attachments bonjour) =
     [Get ''https://cdn/a.png'', Get ''https://cdn/b.png'',
      Print ''Failed to download attachment: https://cdn/b.png (Status: 404)'']"
    by (rule download_events_bonjour) simp
  have p: "payloads french_world (attachments bonjour) = [File [1, 2, 3] ''a.png'']"
    by (rule payloads_bonjour) simp
  have h: "channel_id bonjour = TARGET_CHANNEL_ID example_config" "\<not> bot (author bonjour)"
    "detect french_world (content bonjour) = Inr ''fr''" "''fr'' \<noteq> ''en''"
    "translate_text french_world (content bonjour) ''EN-US'' = Inr ''Hello world''"
    "delete french_world = None" "from_url french_world (WEBHOOK_URL example_config) = None"
    "send french_world
       (repost ''Hello world'' bonjour (payloads french_world (attachments bonjour))) = None"
    by (simp_all add: example_defs)
  show ?thesis
    using translated_repost [OF h] h d p by (simp add: bonjour_def alice_def example_config_def)
qed

text \<open>
  When \<^verbatim>\<open>Webhook.from_url\<close> rejects the configured URL, the original is deleted, the
  construction of the webhook is attempted and fails, the error is printed and nothing
  is sent.
\<close>

lemma broken_webhook_example:
  "on_message example_config broken_webhook_world bonjour =
     (Returned,
      [Detect ''Bonjour le monde'', Translate ''Bonjour le monde'' ''EN-US'',
       Get ''https://cdn/a.png'', Get ''https://cdn/b.png'',
       Print ''Failed to download attachment: https://cdn/b.png (Status: 404)'',
       Delete, FromUrl ''https://discord.com/api/webhooks/1/t'',
       Print ''Error creating webhook: Invalid webhook URL given.'']) \<and>
   delete broken_webhook_world = None \<and>
   Delete \<in> set (snd (on_message example_config broken_webhook_world bonjour)) \<and>
   filter is_send (snd (on_message example_config broken_webhook_world bonjour)) = []"
proof -
  have d: "download_events broken_webhook_world (attachments bonjour) =
     [Get ''https://cdn/a.png'', Get ''https://cdn/b.png'',
      Print ''Failed to download attachment: https://cdn/b.png (Status: 404)'']"
    by (rule download_events_bonjour) (simp add: broken_webhook_world_def)
  have h: "channel_id bonjour = TARGET_CHANNEL_ID example_config" "\<not> bot (author bonjour)"
    "\<And>c. detect broken_webhook_world c = Inr ''fr''"
    "\<And>c l. translate_text broken_webhook_world c l = Inr ''Hello world''"
    "delete broken_webhook_world = None"
    "\<And>u. from_url broken_webhook_world u =
       Some (Exn OtherException ''Invalid webhook URL given.'')"
    "content bonjour = ''Bonjour le monde''"
    "WEBHOOK_URL example_config = ''https://discord.com/api/webhooks/1/t''"
    by (simp_all add: example_defs)
  show ?thesis
    by (simp add: on_message_def download_all_eq h d)
qed

lemma on_message_sends:
  "length (filter is_send (snd (on_message cfg w message))) \<le> 1"
  by (simp add: on_message_def download_all_eq split: sum.splits option.splits prod.splits)

lemma on_message_send_after_delete:
  "filter is_send (snd (on_message cfg w message)) \<noteq> [] \<Longrightarrow>
     delete w = None \<and>
     Delete \<in> set (takeWhile (\<lambda>ev. \<not> is_send ev) (snd (on_message cfg w message)))"
  by (simp add: on_message_def download_all_eq split: sum.splits option.splits prod.splits if_splits)

lemma on_message_send_iff:
  "filter is_send (snd (on_message cfg w message)) \<noteq> [] \<longleftrightarrow>
     Delete \<in> set (snd (on_message cfg w message)) \<and> delete w = None \<and>
     from_url w (WEBHOOK_URL cfg) = None"
  by (simp add: on_message_def download_all_eq split: sum.splits option.splits prod.splits)

lemma dropWhile_download_events [simp]:
  "dropWhile (\<lambda>ev. ev \<noteq> Delete) (download_events w as @ rest) =
     dropWhile (\<lambda>ev. ev \<noteq> Delete) rest"
  by (rule dropWhile_append2) (auto dest: download_events_quiet)

lemma filter_is_from_url_download_events [simp]:
  "filter is_from_url (download_events w as) = []"
  by (auto simp: filter_empty_conv dest: download_events_quiet)

lemma on_message_from_url_iff:
  "FromUrl (WEBHOOK_URL cfg) \<in> set (snd (on_message cfg w message)) \<longleftrightarrow>
     Delete \<in> set (snd (on_message cfg w message)) \<and> delete w = None"
  by (simp add: on_message_def download_all_eq split: sum.splits option.splits prod.splits)

lemma on_message_from_urls:
  "length (filter is_from_url (snd (on_message cfg w message))) \<le> 1"
  by (simp add: on_message_def download_all_eq split: sum.splits option.splits prod.splits)

lemma on_message_after_delete:
  "Delete \<in> set (snd (on_message cfg w message)) \<Longrightarrow> delete w = None \<Longrightarrow>
     fst (on_message cfg w message) = Returned \<and>
     take 2 (dropWhile (\<lambda>ev. ev \<noteq> Delete) (snd (on_message cfg w message))) =
       [Delete, FromUrl (WEBHOOK_URL cfg)]"
  by (simp add: on_message_def download_all_eq split: sum.splits option.splits prod.splits if_splits)

lemma on_message_construction_error:
  "Delete \<in> set (snd (on_message cfg w message)) \<Longrightarrow> delete w = None \<Longrightarrow>
   from_url w (WEBHOOK_URL cfg) = Some e \<Longrightarrow>
     dropWhile (\<lambda>ev. ev \<noteq> Delete) (snd (on_message cfg w message)) =
       [Delete, FromUrl (WEBHOOK_URL cfg), Print (''Error creating webhook: '' @ str e)]"
  by (simp add: on_message_def download_all_eq split: sum.splits option.splits prod.splits if_splits)

text \<open>
  C2. The repost step of the handler begins with the construction of the webhook from the
  configured URL, and the envelope is built and sent inside it. In every invocation the
  step is entered at most once and at most one envelope is sent. The original is deleted
  successfully if and only if the repost step is entered: a send, like the construction
  before it, happens only after the deletion succeeded, and after a successful deletion
  the handler always goes on, as its very next action, to the construction of the
  webhook, and returns. Within the step, the send happens exactly when the construction
  succeeded; when it failed, the error is printed and the handler returns.
\<close>

theorem delete_iff_repost_attempted:
  "length (filter is_send (snd (on_message cfg w message))) \<le> 1 \<and>
   length (filter is_from_url (snd (on_message cfg w message))) \<le> 1 \<and>
   (FromUrl (WEBHOOK_URL cfg) \<in> set (snd (on_message cfg w message)) \<longleftrightarrow>
      Delete \<in> set (snd (on_message cfg w message)) \<and> delete w = None) \<and>
   (filter is_send (snd (on_message cfg w message)) \<noteq> [] \<longrightarrow>
      delete w = None \<and>
      Delete \<in> set (takeWhile (\<lambda>ev. \<not> is_send ev) (snd (on_message cfg w message)))) \<and>
   (Delete \<in> set (snd (on_message cfg w message)) \<and> delete w = None \<longrightarrow>
      fst (on_message cfg w message) = Returned \<and>
      take 2 (dropWhile (\<lambda>ev. ev \<noteq> Delete) (snd (on_message cfg w message))) =
        [Delete, FromUrl (WEBHOOK_URL cfg)]) \<and>
   (Delete \<in> set (snd (on_message cfg w message)) \<and> delete w = None \<and>
    from_url w (WEBHOOK_URL cfg) = Some e \<longrightarrow>
      dropWhile (\<lambda>ev. ev \<noteq> Delete) (snd (on_message cfg w message)) =
        [Delete, FromUrl (WEBHOOK_URL cfg), Print (''Error creating webhook: '' @ str e)]) \<and>
   (filter is_send (snd (on_message cfg w message)) \<noteq> [] \<longleftrightarrow>
      Delete \<in> set (snd (on_message cfg w message)) \<and> delete w = None \<and>
      from_url w (WEBHOOK_URL cfg) = None)"
  using on_message_sends [of cfg w message] on_message_from_urls [of cfg w message]
    on_message_from_url_iff [of cfg w message]
    on_message_send_after_delete [of cfg w message]
    on_message_after_delete [of cfg w message]
    on_message_construction_error [of cfg w message e]
    on_message_send_iff [of cfg w message]
  by blast

theorem delete_iff_repost_attempted_witness:
  "Delete \<in> set (snd (on_message example_config french_world bonjour)) \<and>
   delete french_world = None \<and>
   from_url french_world (WEBHOOK_URL example_config) = None \<and>
   FromUrl (WEBHOOK_URL example_config)
     \<in> set (snd (on_message example_config french_world bonjour)) \<and>
   fst (on_message example_config french_world bonjour) = Returned \<and>
   take 2 (dropWhile (\<lambda>ev. ev \<noteq> Delete)
             (snd (on_message example_config french_world bonjour))) =
     [Delete, FromUrl (WEBHOOK_URL example_config)] \<and>
   filter is_send (snd (on_message example_config french_world bonjour)) \<noteq> [] \<and>
   Delete \<in> set (takeWhile (\<lambda>ev. \<not> is_send ev)
                   (snd (on_message example_config french_world bonjour))) \<and>
   Delete \<in> set (snd (on_message example_config broken_webhook_world bonjour)) \<and>
   delete broken_webhook_world = None \<and>
   from_url broken_webhook_world (WEBHOOK_URL example_config) =
     Some (Exn OtherException ''Invalid webhook URL given.'') \<and>
   dropWhile (\<lambda>ev. ev \<noteq> Delete)
     (snd (on_message example_config broken_webhook_world bonjour)) =
     [Delete, FromUrl (WEBHOOK_URL example_config),
      Print (''Error creating webhook: '' @ ''Invalid webhook URL given.'')]"
proof -
  have h: "channel_id bonjour = TARGET_CHANNEL_ID example_config" "\<not> bot (author bonjour)"
    "detect french_world (content bonjour) = Inr ''fr''"
    "translate_text french_world (content bonjour) ''EN-US'' = Inr ''Hello world''"
    "delete french_world = None" "from_url french_world (WEBHOOK_URL example_config) = None"
    "\<And>E. send french_world E = None"
    by (simp_all add: example_defs)
  have s: "Delete \<in> set (snd (on_message example_config french_world bonjour))"
    by (simp add: on_message_def download_all_eq h)
  have b: "Delete \<in> set (snd (on_message example_config broken_webhook_world bonjour))"
    "delete broken_webhook_world = None"
    using broken_webhook_example by blast+
  have u: "from_url broken_webhook_world (WEBHOOK_URL example_config) =
     Some (Exn OtherException ''Invalid webhook URL given.'')"
    by (simp add: example_defs)
  have x: "str (Exn OtherException ''Invalid webhook URL given.'') = ''Invalid webhook URL given.''"
    by simp
  show ?thesis
    using delete_iff_repost_attempted [of example_config french_world bonjour
        "Exn OtherException ''Invalid webhook URL given.''"]
      delete_iff_repost_attempted [of example_config broken_webhook_world bonjour
        "Exn OtherException ''Invalid webhook URL given.''"]
      s b u h(5,6)
    unfolding x by blast
qed

text \<open>
  C3, as the claim states it, fails: a translation call that raises an exception outside
  \<^verbatim>\<open>DeepLException\<close> is not caught; the exception leaves the handler and nothing is
  printed.
\<close>

theorem translation_error_unlogged_counterexample:
  "channel_id attachment_only = TARGET_CHANNEL_ID example_config \<and>
   \<not> bot (author attachment_only) \<and>
   detect value_error_world (content attachment_only) = Inr ''fr'' \<and>
   translate_text value_error_world (content attachment_only) ''EN-US'' =
     Inl (Exn OtherException ''text must not be empty'') \<and>
   on_message example_config value_error_world attachment_only =
     (Raised (Exn OtherException ''text must not be empty''),
      [Detect [], Translate [] ''EN-US'']) \<and>
   filter is_print (snd (on_message example_config value_error_world attachment_only)) = []"
  by (simp add: on_message_def attachment_only_def value_error_world_def example_defs)

text \<open>
  C3, amended. When the translation call raises, the handler makes no deletion and no
  webhook call, whatever the exception. When the exception is a translation-service error
  (\<^verbatim>\<open>deepl.DeepLException\<close>), the handler prints the error and returns: its whole
  trace is the detection call, the translation call and the console line. Any other
  exception leaves the handler as it is, after the same two calls and without a console
  line.
\<close>

theorem translation_failure_aborts:
  assumes "channel_id message = TARGET_CHANNEL_ID cfg" and "\<not> bot (author message)"
    and "detect w (content message) = Inr source_lang" and "source_lang \<noteq> ''en''"
    and "translate_text w (content message) ''EN-US'' = Inl e"
  shows "on_message cfg w message =
           (if class_of e = DeepLException
            then (Returned, [Detect (content message), Translate (content message) ''EN-US'',
                             Print (''Error translating message: '' @ str e)])
            else (Raised e, [Detect (content message), Translate (content message) ''EN-US''])) \<and>
         filter mutates (snd (on_message cfg w message)) = []"
  using assms by (simp add: on_message_def mutates_def)

theorem translation_failure_aborts_witness:
  "channel_id bonjour = TARGET_CHANNEL_ID example_config \<and> \<not> bot (author bonjour) \<and>
   detect quota_world (content bonjour) = Inr ''fr'' \<and> ''fr'' \<noteq> ''en'' \<and>
   translate_text quota_world (content bonjour) ''EN-US'' =
     Inl (Exn DeepLException ''Quota exceeded'') \<and>
   on_message example_config quota_world bonjour =
     (Returned, [Detect ''Bonjour le monde'', Translate ''Bonjour le monde'' ''EN-US'',
                 Print ''Error translating message: Quota exceeded'']) \<and>
   filter mutates (snd (on_message example_config quota_world bonjour)) = []"
  using translation_failure_aborts [of bonjour example_config quota_world "''fr''"
      "Exn DeepLException ''Quota exceeded''"]
  by (simp add: example_defs mutates_def)

text \<open>
  C4. When the deletion is refused (\<^verbatim>\<open>Forbidden\<close>) or the message is gone
  (\<^verbatim>\<open>NotFound\<close>), the handler has detected, translated and downloaded, prints the
  error and returns: no webhook is constructed, nothing is sent, and the translated text
  appears nowhere in what the handler did.
\<close>

theorem deletion_error_aborts:
  assumes "channel_id message = TARGET_CHANNEL_ID cfg" and "\<not> bot (author message)"
    and "detect w (content message) = Inr source_lang" and "source_lang \<noteq> ''en''"
    and "translate_text w (content message) ''EN-US'' = Inr translated_text"
    and "delete w = Some e" and "class_of e = Forbidden \<or> class_of e = NotFound"
  shows "on_message cfg w message =
           (Returned,
            [Detect (content message), Translate (content message) ''EN-US'']
            @ download_events w (attachments message)
            @ [Delete,
               Print (if class_of e = Forbidden
                      then ''Bot lacks permission to delete the message.''
                      else ''Message not found (already deleted?)'')]) \<and>
         (\<forall>ev \<in> set (snd (on_message cfg w message)). \<not> is_from_url ev \<and> \<not> is_send ev)"
  using assms
  by (auto simp: on_message_def download_all_eq dest: download_events_quiet)

theorem deletion_error_aborts_witness:
  "channel_id bonjour = TARGET_CHANNEL_ID example_config \<and> \<not> bot (author bonjour) \<and>
   detect forbidden_world (content bonjour) = Inr ''fr'' \<and> ''fr'' \<noteq> ''en'' \<and>
   translate_text forbidden_world (content bonjour) ''EN-US'' = Inr ''Hello world'' \<and>
   delete forbidden_world = Some (Exn Forbidden ''403 Forbidden'') \<and>
   on_message example_config forbidden_world bonjour =
     (Returned,
      [Detect ''Bonjour le monde'', Translate ''Bonjour le monde'' ''EN-US'',
       Get ''https://cdn/a.png'', Get ''https://cdn/b.png'',
       Print ''Failed to download attachment: https://cdn/b.png (Status: 404)'',
       Delete, Print ''Bot lacks permission to delete the message.'']) \<and>
   filter is_from_url (snd (on_message example_config forbidden_world bonjour)) = [] \<and>
   filter is_send (snd (on_message example_config forbidden_world bonjour)) = []"
proof -
  have d: "download_events forbidden_world (attachments bonjour) =
     [Get ''https://cdn/a.png'', Get ''https://cdn/b.png'',
      Print ''Failed to download attachment: https://cdn/b.png (Status: 404)'']"
    by (rule download_events_bonjour) (simp add: forbidden_world_def)
  have h: "channel_id bonjour = TARGET_CHANNEL_ID example_config" "\<not> bot (author bonjour)"
    "detect forbidden_world (content bonjour) = Inr ''fr''" "''fr'' \<noteq> ''en''"
    "translate_text forbidden_world (content bonjour) ''EN-US'' = Inr ''Hello world''"
    "delete forbidden_world = Some (Exn Forbidden ''403 Forbidden'')"
    "class_of (Exn Forbidden ''403 Forbidden'') = Forbidden \<or>
     class_of (Exn Forbidden ''403 Forbidden'') = NotFound"
    by (simp_all add: example_defs)
  show ?thesis
    using deletion_error_aborts [OF h] h d by (simp add: bonjour_def)
qed

text \<open>
  C5. A message of another channel than the target channel, or of an author flagged as a
  bot in whatever channel, makes the handler return without any outside call and without
  any console line.
\<close>

theorem filtered_message_no_action:
  "channel_id message \<noteq> TARGET_CHANNEL_ID cfg \<or> bot (author message) \<Longrightarrow>
     on_message cfg w message = (Returned, [])"
  by (auto simp: on_message_def)

theorem filtered_message_no_action_witness:
  "channel_id elsewhere \<noteq> TARGET_CHANNEL_ID example_config \<and>
   on_message example_config french_world elsewhere = (Returned, []) \<and>
   channel_id robot = TARGET_CHANNEL_ID example_config \<and> bot (author robot) \<and>
   on_message example_config french_world robot = (Returned, [])"
  using filtered_message_no_action [of elsewhere example_config french_world]
    filtered_message_no_action [of robot example_config french_world]
  by (simp add: elsewhere_def robot_def bonjour_def alice_def example_config_def)

text \<open>
  C6. A message in the target channel from an author who is not a bot, detected as
  \<^verbatim>\<open>en\<close>: the detection call is all the handler does; no translation, no download,
  no deletion, no repost.
\<close>

theorem english_message_untouched:
  assumes "channel_id message = TARGET_CHANNEL_ID cfg" and "\<not> bot (author message)"
    and "detect w (content message) = Inr ''en''"
  shows "on_message cfg w message = (Returned, [Detect (content message)])"
  using assms by (simp add: on_message_def)

theorem english_message_untouched_witness:
  "channel_id bonjour = TARGET_CHANNEL_ID example_config \<and> \<not> bot (author bonjour) \<and>
   detect english_world (content bonjour) = Inr ''en'' \<and>
   on_message example_config english_world bonjour = (Returned, [Detect ''Bonjour le monde''])"
  using english_message_untouched [of bonjour example_config english_world]
  by (simp add: example_defs)

text \<open>
  C7, as the claim states it, fails: a download answered with the success status 206 and
  a body is skipped with the console line for a failed download, and no file is kept.
\<close>

theorem status_206_counterexample:
  "session_get partial_content_world 0 ''https://cdn/a.png'' = Inr (Response 206 (Inr [1, 2, 3])) \<and>
   download partial_content_world 0 \<lparr> url = ''https://cdn/a.png'', filename = ''a.png'' \<rparr> =
     (None, [Get ''https://cdn/a.png'',
             Print ''Failed to download attachment: https://cdn/a.png (Status: 206)'']) \<and>
   fst (download_all partial_content_world 0 (attachments bonjour) [] []) = []"
  by (simp add: download_def partial_content_world_def french_world_def bonjour_def str_int_206)

text \<open>
  C7, amended. Every attachment is downloaded once, in the order of the message, each on
  its own. An attachment is fetched exactly when the answer has status 200 and its body
  is read; its bytes are then kept under the original filename. With any other status
  (also another 2xx one), or when the request or the reading raises, the attachment is
  skipped with one console line and the loop goes on. The files handed to the repost are
  the fetched ones in the original order, with nothing in the place of a skipped one; and
  whatever the downloads did, the handler goes on to the deletion.
\<close>

theorem attachments_status_200:
  "fst (download_all w 0 (attachments message) [] []) = payloads w (attachments message) \<and>
   (fetched w i a = Some body \<longleftrightarrow>
      (\<exists>resp. session_get w i (url a) = Inr resp \<and> status resp = 200 \<and> read resp = Inr body)) \<and>
   subseq (map file_filename (payloads w (attachments message)))
          (map filename (attachments message)) \<and>
   download_events w (attachments message) =
     concat (map (\<lambda>(i, a). Get (url a) #
                    (case fetched w i a of
                       Some _ \<Rightarrow> []
                     | None \<Rightarrow> [Print (failure_line w i a)]))
               (enumerate 0 (attachments message))) \<and>
   (channel_id message = TARGET_CHANNEL_ID cfg \<and> \<not> bot (author message) \<and>
    detect w (content message) = Inr source_lang \<and> source_lang \<noteq> ''en'' \<and>
    translate_text w (content message) ''EN-US'' = Inr translated_text \<longrightarrow>
      prefix ([Detect (content message), Translate (content message) ''EN-US'']
              @ download_events w (attachments message) @ [Delete])
             (snd (on_message cfg w message)))"
  using download_all_files [of w "attachments message"]
    fetched_Some_iff [of w i a body]
    subseq_payloads [of w "attachments message"]
    download_events_lines [of w "attachments message"]
    pipeline_reaches_delete [of message cfg w source_lang translated_text]
  by blast

theorem attachments_status_200_witness:
  "fst (download_all french_world 0 (attachments bonjour) [] []) = [File [1, 2, 3] ''a.png''] \<and>
   fetched french_world 0 \<lparr> url = ''https://cdn/a.png'', filename = ''a.png'' \<rparr> = Some [1, 2, 3] \<and>
   session_get french_world 0 ''https://cdn/a.png'' = Inr (Response 200 (Inr [1, 2, 3])) \<and>
   subseq [''a.png''] (map filename (attachments bonjour)) \<and>
   download_events french_world (attachments bonjour) =
     [Get ''https://cdn/a.png'', Get ''https://cdn/b.png'',
      Print ''Failed to download attachment: https://cdn/b.png (Status: 404)''] \<and>
   channel_id bonjour = TARGET_CHANNEL_ID example_config \<and> \<not> bot (author bonjour) \<and>
   detect french_world (content bonjour) = Inr ''fr'' \<and> ''fr'' \<noteq> ''en'' \<and>
   translate_text french_world (content bonjour) ''EN-US'' = Inr ''Hello world'' \<and>
   prefix [Detect ''Bonjour le monde'', Translate ''Bonjour le monde'' ''EN-US'',
           Get ''https://cdn/a.png'', Get ''https://cdn/b.png'',
           Print ''Failed to download attachment: https://cdn/b.png (Status: 404)'', Delete]
          (snd (on_message example_config french_world bonjour))"
proof -
  have d: "download_events french_world (attachments bonjour) =
     [Get ''https://cdn/a.png'', Get ''https://cdn/b.png'',
      Print ''Failed to download attachment: https://cdn/b.png (Status: 404)'']"
    by (rule download_events_bonjour) simp
  have p: "payloads french_world (attachments bonjour) = [File [1, 2, 3] ''a.png'']"
    by (rule payloads_bonjour) simp
  have h: "channel_id bonjour = TARGET_CHANNEL_ID example_config" "\<not> bot (author bonjour)"
    "detect french_world (content bonjour) = Inr ''fr''" "''fr'' \<noteq> ''en''"
    "translate_text french_world (content bonjour) ''EN-US'' = Inr ''Hello world''"
    by (simp_all add: example_defs)
  have f: "fetched french_world 0 \<lparr> url = ''https://cdn/a.png'', filename = ''a.png'' \<rparr> =
             Some [1, 2, 3]"
    "session_get french_world 0 ''https://cdn/a.png'' = Inr (Response 200 (Inr [1, 2, 3]))"
    by (simp_all add: fetched_def french_world_def)
  have n: "map filename (attachments bonjour) = [''a.png'', ''b.png'']"
    "content bonjour = ''Bonjour le monde''"
    by (simp_all add: bonjour_def)
  have t: "prefix ([Detect (content bonjour), Translate (content bonjour) ''EN-US'']
              @ download_events french_world (attachments bonjour) @ [Delete])
             (snd (on_message example_config french_world bonjour))"
    "fst (download_all french_world 0 (attachments bonjour) [] []) =
       payloads french_world (attachments bonjour)"
    "subseq (map file_filename (payloads french_world (attachments bonjour)))
          (map filename (attachments bonjour))"
    using attachments_status_200 [of french_world bonjour 0
        "\<lparr> url = ''https://cdn/a.png'', filename = ''a.png'' \<rparr>" "[1, 2, 3]"
        example_config "''fr''" "''Hello world''"] h
    by blast+
  show ?thesis
    using t h f d unfolding p n d by simp
qed

text \<open>
  C8. When the detection call raises any exception, the handler prints the error and
  returns: no translation, no deletion, no repost.
\<close>

theorem detection_error_aborts:
  assumes "channel_id message = TARGET_CHANNEL_ID cfg" and "\<not> bot (author message)"
    and "detect w (content message) = Inl e"
  shows "on_message cfg w message =
           (Returned, [Detect (content message), Print (''Error detecting language: '' @ str e)])"
  using assms by (simp add: on_message_def)

theorem detection_error_aborts_witness:
  "channel_id bonjour = TARGET_CHANNEL_ID example_config \<and> \<not> bot (author bonjour) \<and>
   detect detection_down_world (content bonjour) = Inl (Exn OtherException ''timed out'') \<and>
   on_message example_config detection_down_world bonjour =
     (Returned, [Detect ''Bonjour le monde'', Print ''Error detecting language: timed out''])"
  using detection_error_aborts [of bonjour example_config detection_down_world
      "Exn OtherException ''timed out''"]
  by (simp add: example_defs)

section \<open>Configuration\<close>

lemma load_config_exits:
  "\<not> (truthy (environ ''DISCORD_TOKEN'') \<and> truthy (environ ''WEBHOOK_URL'')
      \<and> truthy (environ ''DEEPL_API_KEY'') \<and> fst (read_target_channel_id int_str environ) \<noteq> 0) \<Longrightarrow>
   load_config int_str environ =
     Exited (snd (read_target_channel_id int_str environ) @ [missing_variables_error])"
  by (auto simp: load_config_def split: prod.splits)

lemma main_module_exits:
  "load_config int_str environ = Exited out \<Longrightarrow> main_module int_str environ inbox = (out, None)"
  by (simp add: main_module_def)

lemma py_int_examples:
  "py_int ''0'' = Some 0" "py_int ''abc'' = None" "py_int ''42'' = Some 42"
  by code_simp+

lemma load_config_example: "load_config py_int example_environ = Started example_config []"
  by (simp add: load_config_def read_target_channel_id_def example_environ_def py_int_examples
        truthy_def example_config_def)

text \<open>
  C9. If the token, the webhook URL or the API key is unset (or empty), or the target
  channel identifier is unset or not a valid integer, the module exits after printing the
  error line, and the client is never started: no message is handled.
\<close>

theorem missing_configuration_exits:
  assumes "environ ''DISCORD_TOKEN'' \<in> {None, Some []} \<or>
           environ ''WEBHOOK_URL'' \<in> {None, Some []} \<or>
           environ ''DEEPL_API_KEY'' \<in> {None, Some []} \<or>
           environ ''TARGET_CHANNEL_ID'' = None \<or>
           (\<exists>s. environ ''TARGET_CHANNEL_ID'' = Some s \<and> int_str s = None)"
  shows "load_config int_str environ =
           Exited (snd (read_target_channel_id int_str environ) @ [missing_variables_error]) \<and>
         main_module int_str environ inbox =
           (snd (read_target_channel_id int_str environ) @ [missing_variables_error], None)"
proof -
  have "\<not> (truthy (environ ''DISCORD_TOKEN'') \<and> truthy (environ ''WEBHOOK_URL'')
      \<and> truthy (environ ''DEEPL_API_KEY'') \<and> fst (read_target_channel_id int_str environ) \<noteq> 0)"
    using assms by (auto simp: truthy_def read_target_channel_id_def)
  then have "load_config int_str environ =
           Exited (snd (read_target_channel_id int_str environ) @ [missing_variables_error])"
    by (rule load_config_exits)
  then show ?thesis by (simp add: main_module_exits)
qed

theorem missing_configuration_exits_witness:
  "(example_environ(''DISCORD_TOKEN'' := None)) ''DISCORD_TOKEN'' = None \<and>
   main_module py_int (example_environ(''DISCORD_TOKEN'' := None)) [(french_world, bonjour)] =
     ([missing_variables_error], None) \<and>
   (example_environ(''TARGET_CHANNEL_ID'' \<mapsto> ''abc'')) ''TARGET_CHANNEL_ID'' = Some ''abc'' \<and>
   py_int ''abc'' = None \<and>
   main_module py_int (example_environ(''TARGET_CHANNEL_ID'' \<mapsto> ''abc''))
       [(french_world, bonjour)] =
     ([invalid_integer_warning, missing_variables_error], None)"
  using
    missing_configuration_exits [of "example_environ(''DISCORD_TOKEN'' := None)" py_int
      "[(french_world, bonjour)]"]
    missing_configuration_exits [of "example_environ(''TARGET_CHANNEL_ID'' \<mapsto> ''abc'')" py_int
      "[(french_world, bonjour)]"]
  by (simp add: read_target_channel_id_def example_environ_def py_int_examples)

text \<open>
  C10. A target channel identifier of 0, whether it was given as a string that reads as
  0, was left unset, or was put in place of a string that is not an integer, ends the
  module like a missing variable does: with the same error line and without starting the
  client. A configuration that starts the client never has 0 as its channel identifier.
\<close>

theorem zero_channel_id_exits:
  "(environ ''TARGET_CHANNEL_ID'' = None \<or>
    (\<exists>s. environ ''TARGET_CHANNEL_ID'' = Some s \<and> (int_str s = Some 0 \<or> int_str s = None)) \<longrightarrow>
      load_config int_str environ =
        Exited (snd (read_target_channel_id int_str environ) @ [missing_variables_error]) \<and>
      snd (main_module int_str environ inbox) = None) \<and>
   (\<forall>cfg out. load_config int_str environ = Started cfg out \<longrightarrow> TARGET_CHANNEL_ID cfg \<noteq> 0)"
proof (intro conjI impI allI)
  assume a: "environ ''TARGET_CHANNEL_ID'' = None \<or>
    (\<exists>s. environ ''TARGET_CHANNEL_ID'' = Some s \<and> (int_str s = Some 0 \<or> int_str s = None))"
  then have "fst (read_target_channel_id int_str environ) = 0"
    by (auto simp: read_target_channel_id_def)
  then show e: "load_config int_str environ =
        Exited (snd (read_target_channel_id int_str environ) @ [missing_variables_error])"
    by (simp add: load_config_exits)
  then show "snd (main_module int_str environ inbox) = None"
    by (simp add: main_module_exits)
next
  fix cfg out
  assume "load_config int_str environ = Started cfg out"
  then show "TARGET_CHANNEL_ID cfg \<noteq> 0"
    by (auto simp: load_config_def split: prod.splits if_splits option.splits)
qed

theorem zero_channel_id_exits_witness:
  "(example_environ(''TARGET_CHANNEL_ID'' \<mapsto> ''0'')) ''TARGET_CHANNEL_ID'' = Some ''0'' \<and>
   py_int ''0'' = Some 0 \<and>
   load_config py_int (example_environ(''TARGET_CHANNEL_ID'' \<mapsto> ''0'')) =
     Exited [missing_variables_error] \<and>
   snd (main_module py_int (example_environ(''TARGET_CHANNEL_ID'' \<mapsto> ''0''))
          [(french_world, bonjour)]) = None"
  using zero_channel_id_exits [of "example_environ(''TARGET_CHANNEL_ID'' \<mapsto> ''0'')" py_int
      "[(french_world, bonjour)]"]
  by (simp add: read_target_channel_id_def example_environ_def py_int_examples)

end
